theory Spec2Isabelle
  imports Complex_Main
begin

section \<open>Conventions of the embedding\<close>

text \<open>
  The sources are the four modules of \<^verbatim>\<open>multi-agent-simulation\<close>:
  \<^verbatim>\<open>vector2d.py\<close>, \<^verbatim>\<open>boundary.py\<close>, \<^verbatim>\<open>agent.py\<close> and \<^verbatim>\<open>simulation.py\<close>.

  \<^item> A Python \<^verbatim>\<open>float\<close> is a double, read as the real number it stands for.
    \<^verbatim>\<open>math.sqrt\<close>, \<^verbatim>\<open>np.exp\<close>, \<^verbatim>\<open>math.cos\<close> and \<^verbatim>\<open>math.sin\<close> are the real functions of the
    same name, and the rounding of a result that lies in the normal range of doubles is
    left out. The operators \<^verbatim>\<open>+\<close>, \<^verbatim>\<open>-\<close>, \<^verbatim>\<open>*\<close> and \<^verbatim>\<open>/\<close> never raise on floats
    (division by zero apart): beyond the range they return an infinity, for which the
    embedding keeps the real number.
  \<^item> Squaring is different: \<^verbatim>\<open>x**2\<close> raises \<^verbatim>\<open>OverflowError\<close> beyond the range and
    rounds to zero or to a subnormal below it. The functions \<open>magnitude\<close>,
    \<open>normalize_vec\<close> and \<open>distance_to\<close> give the values computed when every square lies in
    the normal range; \<open>magnitude_float\<close> and \<open>normalize_float\<close> are the same methods with
    the range of doubles written out. The agent and the simulation are embedded with the
    former.
  \<^item> An exception is a value: every operation that can raise returns
    \<open>error + 'a\<close>, with \<open>Inl\<close> the exception.
  \<^item> The random sources (\<^verbatim>\<open>random.gauss\<close>, \<^verbatim>\<open>random.uniform\<close>, \<^verbatim>\<open>np.random.uniform\<close>)
    are an explicit stream of outcomes: the \<open>k\<close>-th call made by the program returns
    the \<open>k\<close>-th element. An operation that draws returns the rest of the stream.
  \<^item> Mutation is state passing: a method returns the updated object.
\<close>

datatype error = ZeroDivisionError | AttributeError | OverflowError

type_synonym rng = "nat \<Rightarrow> real"

definition draw :: "rng \<Rightarrow> real \<times> rng" where
  "draw rs = (rs 0, \<lambda>n. rs (Suc n))"

text \<open>Python's \<^verbatim>\<open>a / b\<close> on floats raises \<^verbatim>\<open>ZeroDivisionError\<close> when \<^verbatim>\<open>b\<close> is zero.\<close>

definition float_div :: "real \<Rightarrow> real \<Rightarrow> error + real" where
  "float_div a b = (if b = 0 then Inl ZeroDivisionError else Inr (a / b))"

section \<open>vector2d.py\<close>

text \<open>The fields \<^verbatim>\<open>x\<close> and \<^verbatim>\<open>y\<close> of the class are \<open>vec_x\<close> and \<open>vec_y\<close>.\<close>

datatype Vector2D = Vector2D (vec_x: real) (vec_y: real)

definition vec_add :: "Vector2D \<Rightarrow> Vector2D \<Rightarrow> Vector2D" where
  "vec_add v other = Vector2D (vec_x v + vec_x other) (vec_y v + vec_y other)"

definition vec_sub :: "Vector2D \<Rightarrow> Vector2D \<Rightarrow> Vector2D" where
  "vec_sub v other = Vector2D (vec_x v - vec_x other) (vec_y v - vec_y other)"

definition vec_mul :: "Vector2D \<Rightarrow> real \<Rightarrow> Vector2D" where
  "vec_mul v scalar = Vector2D (vec_x v * scalar) (vec_y v * scalar)"

definition vec_rmul :: "Vector2D \<Rightarrow> real \<Rightarrow> Vector2D" where
  "vec_rmul v scalar = vec_mul v scalar"


definition magnitude :: "Vector2D \<Rightarrow> real" where
  "magnitude v = sqrt ((vec_x v)\<^sup>2 + (vec_y v)\<^sup>2)"

definition normalize_vec :: "Vector2D \<Rightarrow> error + Vector2D" where
  "normalize_vec v =
     (let mag = magnitude v in
      if mag = 0 then Inr (Vector2D 0 0)
      else
        (case float_div (vec_x v) mag of
           Inl e \<Rightarrow> Inl e
         | Inr qx \<Rightarrow>
             (case float_div (vec_y v) mag of
                Inl e \<Rightarrow> Inl e
              | Inr qy \<Rightarrow> Inr (Vector2D qx qy))))"

definition distance_to :: "Vector2D \<Rightarrow> Vector2D \<Rightarrow> real" where
  "distance_to v other = magnitude (vec_sub v other)"

definition dot :: "Vector2D \<Rightarrow> Vector2D \<Rightarrow> real" where
  "dot v other = vec_x v * vec_x other + vec_y v * vec_y other"

definition rotate_vec :: "Vector2D \<Rightarrow> real \<Rightarrow> Vector2D" where
  "rotate_vec v angle =
     (let cos_a = cos angle; sin_a = sin angle in
      Vector2D (vec_x v * cos_a - vec_y v * sin_a) (vec_x v * sin_a + vec_y v * cos_a))"

text \<open>
  \<^verbatim>\<open>add_randomness\<close> draws twice, first for \<^verbatim>\<open>x\<close>, then for \<^verbatim>\<open>y\<close>; the outcome of
  \<^verbatim>\<open>random.gauss(0, std_dev)\<close> is whatever the stream holds.
\<close>

definition add_randomness :: "Vector2D \<Rightarrow> real \<Rightarrow> rng \<Rightarrow> Vector2D \<times> rng" where
  "add_randomness v std_dev rs =
     (let (g1, rs1) = draw rs; (g2, rs2) = draw rs1 in
      (Vector2D (vec_x v + g1) (vec_y v + g2), rs2))"

definition copy :: "Vector2D \<Rightarrow> Vector2D" where
  "copy v = Vector2D (vec_x v) (vec_y v)"

subsection \<open>The range of doubles in \<^verbatim>\<open>magnitude\<close> and \<^verbatim>\<open>normalize\<close>\<close>







section \<open>boundary.py\<close>

record Boundary =
  width :: real
  height :: real
  min_x :: real
  max_x :: real
  min_y :: real
  max_y :: real

definition Boundary_init :: "real \<Rightarrow> real \<Rightarrow> Boundary" where
  "Boundary_init w h =
     \<lparr>width = w, height = h, min_x = 0, max_x = w, min_y = 0, max_y = h\<rparr>"

definition is_within_bounds :: "Boundary \<Rightarrow> Vector2D \<Rightarrow> bool" where
  "is_within_bounds b p \<longleftrightarrow>
     min_x b \<le> vec_x p \<and> vec_x p \<le> max_x b \<and> min_y b \<le> vec_y p \<and> vec_y p \<le> max_y b"

definition is_near_boundary :: "Boundary \<Rightarrow> Vector2D \<Rightarrow> real \<Rightarrow> bool" where
  "is_near_boundary b p threshold \<longleftrightarrow>
     vec_x p \<le> min_x b + threshold \<or> vec_x p \<ge> max_x b - threshold \<or>
     vec_y p \<le> min_y b + threshold \<or> vec_y p \<ge> max_y b - threshold"

definition dist_left :: "Boundary \<Rightarrow> Vector2D \<Rightarrow> real" where
  "dist_left b p = \<bar>vec_x p - min_x b\<bar>"

definition dist_right :: "Boundary \<Rightarrow> Vector2D \<Rightarrow> real" where
  "dist_right b p = \<bar>vec_x p - max_x b\<bar>"

definition dist_bottom :: "Boundary \<Rightarrow> Vector2D \<Rightarrow> real" where
  "dist_bottom b p = \<bar>vec_y p - min_y b\<bar>"

definition dist_top :: "Boundary \<Rightarrow> Vector2D \<Rightarrow> real" where
  "dist_top b p = \<bar>vec_y p - max_y b\<bar>"

text \<open>\<^verbatim>\<open>min(dist_left, dist_right, dist_bottom, dist_top)\<close>, the same in both functions.\<close>

definition min_dist :: "Boundary \<Rightarrow> Vector2D \<Rightarrow> real" where
  "min_dist b p = min (dist_left b p) (min (dist_right b p) (min (dist_bottom b p) (dist_top b p)))"

definition get_tangent_at_point :: "Boundary \<Rightarrow> Vector2D \<Rightarrow> Vector2D" where
  "get_tangent_at_point b p =
     (if min_dist b p = dist_left b p \<or> min_dist b p = dist_right b p
      then Vector2D 0 1
      else Vector2D 1 0)"

definition get_normal_at_point :: "Boundary \<Rightarrow> Vector2D \<Rightarrow> Vector2D" where
  "get_normal_at_point b p =
     (if min_dist b p = dist_left b p then Vector2D 1 0
      else if min_dist b p = dist_right b p then Vector2D (- 1) 0
      else if min_dist b p = dist_bottom b p then Vector2D 0 1
      else Vector2D 0 (- 1))"

definition clamp_position :: "Boundary \<Rightarrow> Vector2D \<Rightarrow> Vector2D" where
  "clamp_position b p =
     Vector2D (max (min_x b) (min (vec_x p) (max_x b))) (max (min_y b) (min (vec_y p) (max_y b)))"

section \<open>agent.py\<close>

text \<open>
  The attribute \<^verbatim>\<open>velocity\<close> holds a \<^verbatim>\<open>Vector2D\<close> or, after \<^verbatim>\<open>self.velocity = 0\<close> in
  \<^verbatim>\<open>energy_update\<close>, a plain number: the field is a tagged value.
\<close>

datatype pyval = Vec Vector2D | Num real

record Agent =
  position :: Vector2D
  velocity :: pyval
  energy :: real
  radius :: real
  nrg_decay :: real
  nrg_gain :: real
  is_moving :: bool
  movement_time :: real
  base_speed :: real
  max_energy :: real

definition Agent_init :: "Vector2D \<Rightarrow> Vector2D \<Rightarrow> real \<Rightarrow> real \<Rightarrow> real \<Rightarrow> real \<Rightarrow> Agent" where
  "Agent_init pos vel e agent_radius decay gain =
     \<lparr>position = copy pos, velocity = Vec (copy vel), energy = e, radius = agent_radius,
      nrg_decay = decay, nrg_gain = gain, is_moving = True, movement_time = 0,
      base_speed = magnitude vel, max_energy = e\<rparr>"

text \<open>
  \<^verbatim>\<open>Agent.energy_update\<close> (the name \<open>energy_update\<close> is the record's field update). While
  moving, a velocity that is a number makes
  \<^verbatim>\<open>self.velocity.__mul__(self.energy)\<close> return \<^verbatim>\<open>NotImplemented\<close>, whose
  \<^verbatim>\<open>.magnitude()\<close> raises \<^verbatim>\<open>AttributeError\<close>. While resting, \<^verbatim>\<open>and\<close> evaluates the
  random draw only when the energy equals \<^verbatim>\<open>max_energy\<close>, and the angle is drawn only
  when the agent restarts.
\<close>

definition Agent_energy_update :: "Agent \<Rightarrow> real \<Rightarrow> rng \<Rightarrow> error + (Agent \<times> rng)" where
  "Agent_energy_update a delta_time rs =
     (if is_moving a then
        (let e = energy a * exp (- nrg_decay a * delta_time) in
         case velocity a of
           Num n \<Rightarrow> Inl AttributeError
         | Vec v \<Rightarrow>
             (let v' = vec_mul v e in
              if magnitude v' < 1
              then Inr (a\<lparr>energy := e, velocity := Num 0, is_moving := False\<rparr>, rs)
              else Inr (a\<lparr>energy := e, velocity := Vec v'\<rparr>, rs)))
      else
        (let e = min (energy a + nrg_gain a * max_energy a) (max_energy a) in
         if e = max_energy a then
           (let (u, rs1) = draw rs in
            if u < 3 / 10 then
              (let (angle, rs2) = draw rs1 in
               Inr (a\<lparr>energy := e, is_moving := True,
                      velocity := Vec (Vector2D (cos angle * base_speed a)
                                                (sin angle * base_speed a))\<rparr>, rs2))
            else Inr (a\<lparr>energy := e\<rparr>, rs1))
         else Inr (a\<lparr>energy := e\<rparr>, rs)))"

text \<open>
  \<^verbatim>\<open>Agent.update\<close>. A velocity that is a number has no \<^verbatim>\<open>copy\<close>, and
  \<^verbatim>\<open>position + 0 * delta_time\<close> reads \<^verbatim>\<open>other.x\<close> of a number: both raise
  \<^verbatim>\<open>AttributeError\<close>.
\<close>

definition Agent_update :: "Agent \<Rightarrow> real \<Rightarrow> real \<Rightarrow> rng \<Rightarrow> error + (Agent \<times> rng)" where
  "Agent_update a delta_time std_dev rs =
     (if is_moving a then
        (case velocity a of
           Num n \<Rightarrow> Inl AttributeError
         | Vec v \<Rightarrow>
             (if std_dev > 0 then
                (let (random_vel, rs1) = add_randomness (copy v) std_dev rs in
                 Agent_energy_update
                   (a\<lparr>position := vec_add (position a) (vec_mul random_vel delta_time),
                      movement_time := movement_time a + delta_time\<rparr>) delta_time rs1)
              else
                Agent_energy_update
                  (a\<lparr>position := vec_add (position a) (vec_mul v delta_time),
                     movement_time := movement_time a + delta_time\<rparr>) delta_time rs))
      else Agent_energy_update a delta_time rs)"

definition can_move :: "Agent \<Rightarrow> bool" where
  "can_move a = is_moving a"

definition detect_collision :: "Agent \<Rightarrow> Agent \<Rightarrow> real \<Rightarrow> bool" where
  "detect_collision a other_agent interaction_radius \<longleftrightarrow>
     distance_to (position a) (position other_agent) \<le> interaction_radius"

definition interact_with_agent :: "Agent \<Rightarrow> Agent \<Rightarrow> error + Agent" where
  "interact_with_agent a other_agent =
     (if \<not> is_moving a then Inr a
      else
        (let direction = vec_sub (position a) (position other_agent) in
         if magnitude direction = 0 then Inr a
         else
           (case normalize_vec (rotate_vec direction (pi / 2)) of
              Inl e \<Rightarrow> Inl e
            | Inr tangent \<Rightarrow>
                (case velocity a of
                   Num n \<Rightarrow> Inl AttributeError
                 | Vec v \<Rightarrow>
                     (let speed = magnitude v in
                      if speed > 0 then Inr (a\<lparr>velocity := Vec (vec_mul tangent speed)\<rparr>)
                      else Inr a)))))"

definition interact_with_boundary :: "Agent \<Rightarrow> Boundary \<Rightarrow> error + Agent" where
  "interact_with_boundary a b =
     (if \<not> is_moving a then Inr a
      else if is_near_boundary b (position a) (radius a + 15) then
        (let tangent = get_tangent_at_point b (position a) in
         case velocity a of
           Num n \<Rightarrow> Inl AttributeError
         | Vec v \<Rightarrow>
             (let tangent' = (if dot v tangent < 0 then vec_mul tangent (- 1) else tangent);
                  speed = magnitude v;
                  normal = get_normal_at_point b (position a)
              in Inr (a\<lparr>velocity := Vec (vec_mul tangent' speed),
                        position := vec_add (position a) (vec_mul normal 2)\<rparr>)))
      else Inr a)"

section \<open>simulation.py\<close>

record Simulation =
  boundary :: Boundary
  agents :: "Agent list"
  interaction_radius :: real
  time_step :: real
  random_std_dev :: real
  current_time :: real

definition Simulation_init :: "real \<Rightarrow> real \<Rightarrow> real \<Rightarrow> real \<Rightarrow> real \<Rightarrow> Simulation" where
  "Simulation_init boundary_width boundary_height radius_arg step_arg std_dev_arg =
     \<lparr>boundary = Boundary_init boundary_width boundary_height, agents = [],
      interaction_radius = radius_arg, time_step = step_arg,
      random_std_dev = std_dev_arg, current_time = 0\<rparr>"

text \<open>
  The first loop of \<^verbatim>\<open>Simulation.update\<close>:
  \<^verbatim>\<open>for agent in self.agents: if agent.can_move(): agent.update(...)\<close>.
\<close>

fun update_agents :: "Agent list \<Rightarrow> real \<Rightarrow> real \<Rightarrow> rng \<Rightarrow> error + (Agent list \<times> rng)" where
  "update_agents [] dt sd rs = Inr ([], rs)"
| "update_agents (a # rest) dt sd rs =
     (if can_move a then
        (case Agent_update a dt sd rs of
           Inl e \<Rightarrow> Inl e
         | Inr (a', rs1) \<Rightarrow>
             (case update_agents rest dt sd rs1 of
                Inl e \<Rightarrow> Inl e
              | Inr (rest', rs2) \<Rightarrow> Inr (a' # rest', rs2)))
      else
        (case update_agents rest dt sd rs of
           Inl e \<Rightarrow> Inl e
         | Inr (rest', rs1) \<Rightarrow> Inr (a # rest', rs1)))"

text \<open>
  The body of the pair loop of \<^verbatim>\<open>check_interactions\<close>, for indices \<open>i < j\<close>. The
  agents are objects of the list, mutated in place: the second reaction sees the first
  agent as already redirected. Both indices come from \<^verbatim>\<open>range(len(self.agents))\<close>, so the
  reads \<open>as ! i\<close> and \<open>as ! j\<close> are always in range.
\<close>

definition interact_pair :: "Agent list \<Rightarrow> real \<Rightarrow> nat \<Rightarrow> nat \<Rightarrow> error + Agent list" where
  "interact_pair as r i j =
     (let agent1 = as ! i; agent2 = as ! j in
      if \<not> can_move agent1 \<and> \<not> can_move agent2 then Inr as
      else if detect_collision agent1 agent2 r then
        (case (if can_move agent1 then interact_with_agent agent1 agent2 else Inr agent1) of
           Inl e \<Rightarrow> Inl e
         | Inr agent1' \<Rightarrow>
             (case (if can_move agent2 then interact_with_agent agent2 agent1' else Inr agent2) of
                Inl e \<Rightarrow> Inl e
              | Inr agent2' \<Rightarrow> Inr (as[i := agent1', j := agent2'])))
      else Inr as)"

fun pairs_inner :: "Agent list \<Rightarrow> real \<Rightarrow> nat \<Rightarrow> nat list \<Rightarrow> error + Agent list" where
  "pairs_inner as r i [] = Inr as"
| "pairs_inner as r i (j # js) =
     (case interact_pair as r i j of
        Inl e \<Rightarrow> Inl e
      | Inr as' \<Rightarrow> pairs_inner as' r i js)"

fun pairs_outer :: "Agent list \<Rightarrow> real \<Rightarrow> nat list \<Rightarrow> error + Agent list" where
  "pairs_outer as r [] = Inr as"
| "pairs_outer as r (i # is) =
     (case pairs_inner as r i [Suc i ..< length as] of
        Inl e \<Rightarrow> Inl e
      | Inr as' \<Rightarrow> pairs_outer as' r is)"

definition check_interactions :: "Simulation \<Rightarrow> error + Simulation" where
  "check_interactions s =
     (case pairs_outer (agents s) (interaction_radius s) [0 ..< length (agents s)] of
        Inl e \<Rightarrow> Inl e
      | Inr as' \<Rightarrow> Inr (s\<lparr>agents := as'\<rparr>))"

fun boundary_loop :: "Agent list \<Rightarrow> Boundary \<Rightarrow> error + Agent list" where
  "boundary_loop [] b = Inr []"
| "boundary_loop (a # rest) b =
     (case (if can_move a then interact_with_boundary a b else Inr a) of
        Inl e \<Rightarrow> Inl e
      | Inr a' \<Rightarrow>
          (case boundary_loop rest b of
             Inl e \<Rightarrow> Inl e
           | Inr rest' \<Rightarrow> Inr (a' # rest')))"

definition check_boundary_collisions :: "Simulation \<Rightarrow> error + Simulation" where
  "check_boundary_collisions s =
     (case boundary_loop (agents s) (boundary s) of
        Inl e \<Rightarrow> Inl e
      | Inr as' \<Rightarrow> Inr (s\<lparr>agents := as'\<rparr>))"

definition Simulation_update :: "Simulation \<Rightarrow> rng \<Rightarrow> error + (Simulation \<times> rng)" where
  "Simulation_update s rs =
     (case update_agents (agents s) (time_step s) (random_std_dev s) rs of
        Inl e \<Rightarrow> Inl e
      | Inr (as1, rs1) \<Rightarrow>
          (case check_interactions (s\<lparr>agents := as1\<rparr>) of
             Inl e \<Rightarrow> Inl e
           | Inr s2 \<Rightarrow>
               (case check_boundary_collisions s2 of
                  Inl e \<Rightarrow> Inl e
                | Inr s3 \<Rightarrow> Inr (s3\<lparr>current_time := current_time s3 + time_step s3\<rparr>, rs1))))"

definition get_agent_positions :: "Simulation \<Rightarrow> (real \<times> real) list" where
  "get_agent_positions s = map (\<lambda>a. (vec_x (position a), vec_y (position a))) (agents s)"

text \<open>
  One dictionary of \<^verbatim>\<open>get_agent_states\<close>. Reading \<^verbatim>\<open>agent.velocity.x\<close> of a velocity
  that is a number raises \<^verbatim>\<open>AttributeError\<close>.
\<close>

record agent_state =
  state_id :: nat
  state_position :: "real \<times> real"
  state_velocity :: "real \<times> real"
  state_energy :: real
  state_is_moving :: bool
  state_movement_time :: real

definition agent_state_of :: "nat \<Rightarrow> Agent \<Rightarrow> error + agent_state" where
  "agent_state_of i a =
     (case velocity a of
        Num n \<Rightarrow> Inl AttributeError
      | Vec v \<Rightarrow>
          Inr \<lparr>state_id = i, state_position = (vec_x (position a), vec_y (position a)),
               state_velocity = (vec_x v, vec_y v), state_energy = energy a,
               state_is_moving = is_moving a, state_movement_time = movement_time a\<rparr>)"

fun states_loop :: "nat \<Rightarrow> Agent list \<Rightarrow> error + agent_state list" where
  "states_loop i [] = Inr []"
| "states_loop i (a # rest) =
     (case agent_state_of i a of
        Inl e \<Rightarrow> Inl e
      | Inr st \<Rightarrow>
          (case states_loop (Suc i) rest of
             Inl e \<Rightarrow> Inl e
           | Inr sts \<Rightarrow> Inr (st # sts)))"

definition get_agent_states :: "Simulation \<Rightarrow> error + agent_state list" where
  "get_agent_states s = states_loop 0 (agents s)"

section \<open>Notions the properties are stated with\<close>

text \<open>Whether the value held by the velocity attribute is a \<^verbatim>\<open>Vector2D\<close>.\<close>

definition is_vec :: "pyval \<Rightarrow> bool" where
  "is_vec val = (case val of Vec v \<Rightarrow> True | Num n \<Rightarrow> False)"

text \<open>
  The velocity magnitude of an agent; the number stored by \<^verbatim>\<open>self.velocity = 0\<close> counts
  with its absolute value.
\<close>

definition speed :: "Agent \<Rightarrow> real" where
  "speed a = (case velocity a of Vec v \<Rightarrow> magnitude v | Num n \<Rightarrow> \<bar>n\<bar>)"

text \<open>A random source whose every outcome is 0, for concrete runs.\<close>

definition zero_rng :: rng where
  "zero_rng = (\<lambda>n. 0)"

text \<open>
  The energy invariant of the data model, \<open>0 \<le> energy \<le> max_energy\<close>, together with
  what the constructor's arguments are assumed to satisfy (nonnegative rates) and the
  typing of the velocity attribute of a Moving agent.
\<close>

definition energy_inv :: "Agent \<Rightarrow> bool" where
  "energy_inv a \<longleftrightarrow>
     0 \<le> energy a \<and> energy a \<le> max_energy a \<and> 0 \<le> nrg_decay a \<and> 0 \<le> nrg_gain a \<and>
     (is_moving a \<longrightarrow> is_vec (velocity a))"

section \<open>Facts about vectors\<close>



lemma magnitude_axis [simp]:
  "magnitude (Vector2D 0 c) = \<bar>c\<bar>" "magnitude (Vector2D c 0) = \<bar>c\<bar>"
  by (simp_all add: magnitude_def)




section \<open>Facts about the range of doubles\<close>


















section \<open>Vector operations and exceptions\<close>



section \<open>Coincident and resting agents\<close>

text \<open>
  Claim C7: for two agents at exactly the same position, \<^verbatim>\<open>detect_collision\<close> is true for
  every nonnegative interaction radius, and \<^verbatim>\<open>interact_with_agent\<close> returns each of the
  two participants unchanged (position, velocity, energy and movement state); it also
  returns a Resting caller unchanged, whatever the other agent is.
\<close>

theorem coincident_or_resting_noop:
  "(position a = position other \<and> 0 \<le> r \<longrightarrow>
      detect_collision a other r \<and> interact_with_agent a other = Inr a \<and>
      interact_with_agent other a = Inr other) \<and>
   (\<not> is_moving a \<longrightarrow> interact_with_agent a other = Inr a)"
  by (simp add: detect_collision_def distance_to_def vec_sub_def interact_with_agent_def
        magnitude_def Let_def)

theorem coincident_or_resting_noop_witness:
  "position (Agent_init (Vector2D 0 0) (Vector2D 3 4) 1 5 (1/10) (1/100))
     = position (Agent_init (Vector2D 0 0) (Vector2D 1 0) 1 5 (1/10) (1/100)) \<and>
   (0::real) \<le> 10 \<and>
   detect_collision (Agent_init (Vector2D 0 0) (Vector2D 3 4) 1 5 (1/10) (1/100))
     (Agent_init (Vector2D 0 0) (Vector2D 1 0) 1 5 (1/10) (1/100)) 10 \<and>
   interact_with_agent (Agent_init (Vector2D 0 0) (Vector2D 3 4) 1 5 (1/10) (1/100))
     (Agent_init (Vector2D 0 0) (Vector2D 1 0) 1 5 (1/10) (1/100))
     = Inr (Agent_init (Vector2D 0 0) (Vector2D 3 4) 1 5 (1/10) (1/100)) \<and>
   interact_with_agent (Agent_init (Vector2D 0 0) (Vector2D 1 0) 1 5 (1/10) (1/100))
     (Agent_init (Vector2D 0 0) (Vector2D 3 4) 1 5 (1/10) (1/100))
     = Inr (Agent_init (Vector2D 0 0) (Vector2D 1 0) 1 5 (1/10) (1/100)) \<and>
   \<not> is_moving ((Agent_init (Vector2D 7 7) (Vector2D 3 4) 1 5 (1/10) (1/100))
                  \<lparr>velocity := Num 0, is_moving := False\<rparr>) \<and>
   interact_with_agent ((Agent_init (Vector2D 7 7) (Vector2D 3 4) 1 5 (1/10) (1/100))
                          \<lparr>velocity := Num 0, is_moving := False\<rparr>)
     (Agent_init (Vector2D 0 0) (Vector2D 1 0) 1 5 (1/10) (1/100))
     = Inr ((Agent_init (Vector2D 7 7) (Vector2D 3 4) 1 5 (1/10) (1/100))
              \<lparr>velocity := Num 0, is_moving := False\<rparr>)"
proof -
  have same: "position (Agent_init (Vector2D 0 0) (Vector2D 3 4) 1 5 (1/10) (1/100))
     = position (Agent_init (Vector2D 0 0) (Vector2D 1 0) 1 5 (1/10) (1/100))"
    by (simp add: Agent_init_def)
  have resting: "\<not> is_moving ((Agent_init (Vector2D 7 7) (Vector2D 3 4) 1 5 (1/10) (1/100))
                  \<lparr>velocity := Num 0, is_moving := False\<rparr>)"
    by simp
  show ?thesis
    using same resting
      coincident_or_resting_noop
        [of "Agent_init (Vector2D 0 0) (Vector2D 3 4) 1 5 (1/10) (1/100)"
            "Agent_init (Vector2D 0 0) (Vector2D 1 0) 1 5 (1/10) (1/100)" 10]
      coincident_or_resting_noop
        [of "(Agent_init (Vector2D 7 7) (Vector2D 3 4) 1 5 (1/10) (1/100))
               \<lparr>velocity := Num 0, is_moving := False\<rparr>"
            "Agent_init (Vector2D 0 0) (Vector2D 1 0) 1 5 (1/10) (1/100)" 10]
    by simp
qed

section \<open>The wall scenario\<close>

text \<open>
  Claim C8: in a boundary of width 100 and height 100, a Moving agent at \<open>(5, 50)\<close> with
  velocity \<open>(-10, 0)\<close> and radius 5 is near the boundary for the threshold
  \<open>radius + 15\<close>; the tangent of the nearest (left) wall is \<open>(0, 1)\<close>; the velocity's dot
  product with it is 0, so the tangent is not flipped; the speed is 10; the inward normal
  is \<open>(1, 0)\<close>; and \<^verbatim>\<open>interact_with_boundary\<close> leaves the agent with velocity \<open>(0, 10)\<close>
  at position \<open>(7, 50)\<close>. Energy and the two rates play no part and stay arbitrary.
\<close>

theorem boundary_scenario:
  "is_near_boundary (Boundary_init 100 100) (Vector2D 5 50) (5 + 15) \<and>
   get_tangent_at_point (Boundary_init 100 100) (Vector2D 5 50) = Vector2D 0 1 \<and>
   dot (Vector2D (- 10) 0) (Vector2D 0 1) = 0 \<and>
   magnitude (Vector2D (- 10) 0) = 10 \<and>
   get_normal_at_point (Boundary_init 100 100) (Vector2D 5 50) = Vector2D 1 0 \<and>
   interact_with_boundary (Agent_init (Vector2D 5 50) (Vector2D (- 10) 0) e 5 d g)
       (Boundary_init 100 100)
     = Inr ((Agent_init (Vector2D 5 50) (Vector2D (- 10) 0) e 5 d g)
              \<lparr>velocity := Vec (Vector2D 0 10), position := Vector2D 7 50\<rparr>)"
  by (simp add: interact_with_boundary_def Agent_init_def Boundary_init_def is_near_boundary_def
        get_tangent_at_point_def get_normal_at_point_def min_dist_def dist_left_def
        dist_right_def dist_bottom_def dist_top_def dot_def vec_mul_def vec_add_def copy_def
        Let_def)

section \<open>Tangent and normal of the nearest wall\<close>

text \<open>
  Claim C9: for every boundary and every position, the tangent and the normal returned
  are unit vectors with dot product exactly 0. Ties are resolved by the order of the
  tests: whenever the left distance attains the minimum, both functions answer for the
  left wall; otherwise, whenever the right distance attains it, both answer for the right
  wall; only when neither does, both answer for the bottom or the top wall (bottom before
  top).
\<close>

theorem tangent_normal_perpendicular_units:
  "magnitude (get_tangent_at_point b p) = 1 \<and>
   magnitude (get_normal_at_point b p) = 1 \<and>
   dot (get_tangent_at_point b p) (get_normal_at_point b p) = 0 \<and>
   (min_dist b p = dist_left b p \<longrightarrow>
      get_tangent_at_point b p = Vector2D 0 1 \<and> get_normal_at_point b p = Vector2D 1 0) \<and>
   (min_dist b p \<noteq> dist_left b p \<and> min_dist b p = dist_right b p \<longrightarrow>
      get_tangent_at_point b p = Vector2D 0 1 \<and> get_normal_at_point b p = Vector2D (- 1) 0) \<and>
   (min_dist b p \<noteq> dist_left b p \<and> min_dist b p \<noteq> dist_right b p \<longrightarrow>
      get_tangent_at_point b p = Vector2D 1 0 \<and>
      get_normal_at_point b p =
        (if min_dist b p = dist_bottom b p then Vector2D 0 1 else Vector2D 0 (- 1)))"
  by (simp add: get_tangent_at_point_def get_normal_at_point_def dot_def)

text \<open>The witness is a corner: at \<open>(5, 5)\<close> the left and the bottom wall tie, and the left wins.\<close>

theorem tangent_normal_perpendicular_units_witness:
  "min_dist (Boundary_init 100 100) (Vector2D 5 5) = dist_left (Boundary_init 100 100) (Vector2D 5 5) \<and>
   min_dist (Boundary_init 100 100) (Vector2D 5 5) = dist_bottom (Boundary_init 100 100) (Vector2D 5 5) \<and>
   get_tangent_at_point (Boundary_init 100 100) (Vector2D 5 5) = Vector2D 0 1 \<and>
   get_normal_at_point (Boundary_init 100 100) (Vector2D 5 5) = Vector2D 1 0 \<and>
   dot (get_tangent_at_point (Boundary_init 100 100) (Vector2D 5 5))
       (get_normal_at_point (Boundary_init 100 100) (Vector2D 5 5)) = 0"
proof -
  have tie:
    "min_dist (Boundary_init 100 100) (Vector2D 5 5) = dist_left (Boundary_init 100 100) (Vector2D 5 5)"
    "min_dist (Boundary_init 100 100) (Vector2D 5 5) = dist_bottom (Boundary_init 100 100) (Vector2D 5 5)"
    by (simp_all add: min_dist_def dist_left_def dist_right_def dist_bottom_def dist_top_def
          Boundary_init_def)
  show ?thesis
    using tie tangent_normal_perpendicular_units [of "Boundary_init 100 100" "Vector2D 5 5"]
    by (simp add: dot_def)
qed

section \<open>Normalisation\<close>




section \<open>Facts about the agent operations\<close>







lemma energy_inv_position [simp]:
  "energy_inv (a\<lparr>position := p\<rparr>) = energy_inv a"
  "energy_inv (a\<lparr>movement_time := t\<rparr>) = energy_inv a"
  by (simp_all add: energy_inv_def)




lemma magnitude_vec_mul: "magnitude (vec_mul v c) = magnitude v * \<bar>c\<bar>"
  by (simp add: magnitude_def vec_mul_def power_mult_distrib distrib_right[symmetric]
        real_sqrt_mult)

lemma states_loop_fails:
  "\<exists>a\<in>set as. \<not> is_vec (velocity a) \<Longrightarrow> states_loop i as = Inl AttributeError"
proof (induction as arbitrary: i)
  case Nil
  then show ?case by simp
next
  case (Cons a as)
  show ?case
  proof (cases "velocity a")
    case (Num n)
    then show ?thesis by (simp add: agent_state_of_def)
  next
    case (Vec v)
    with Cons.prems have "\<exists>a\<in>set as. \<not> is_vec (velocity a)"
      by (simp add: is_vec_def)
    then have "states_loop (Suc i) as = Inl AttributeError"
      by (rule Cons.IH)
    with Vec show ?thesis by (simp add: agent_state_of_def)
  qed
qed

lemma resting_energy_update_total:
  "\<not> is_moving a \<Longrightarrow> \<exists>r. Agent_energy_update a dt rs = Inr r"
  by (simp add: Agent_energy_update_def Let_def split: prod.splits)

section \<open>Resting agents under the simulation step\<close>

lemma update_agents_resting:
  "update_agents as dt sd rs = Inr (as', rs') \<Longrightarrow>
     length as' = length as \<and> (\<forall>i < length as. \<not> is_moving (as ! i) \<longrightarrow> as' ! i = as ! i)"
proof (induction as arbitrary: rs as' rs')
  case Nil
  then show ?case by simp
next
  case (Cons a as)
  show ?case
  proof (cases "can_move a")
    case True
    with Cons.prems obtain a1 rs1 rest' where
      1: "Agent_update a dt sd rs = Inr (a1, rs1)" and
      2: "update_agents as dt sd rs1 = Inr (rest', rs')" and 3: "as' = a1 # rest'"
      by (auto split: sum.splits prod.splits)
    from Cons.IH [OF 2] 3 True show ?thesis
      by (auto simp: can_move_def nth_Cons split: nat.splits)
  next
    case False
    with Cons.prems obtain rest' where
      2: "update_agents as dt sd rs = Inr (rest', rs')" and 3: "as' = a # rest'"
      by (auto split: sum.splits prod.splits)
    from Cons.IH [OF 2] 3 show ?thesis
      by (auto simp: nth_Cons split: nat.splits)
  qed
qed

lemma resting_interact_noop: "\<not> is_moving a \<Longrightarrow> interact_with_agent a other = Inr a"
  by (simp add: interact_with_agent_def)

lemma interact_pair_resting:
  assumes "interact_pair as r i j = Inr as'"
  shows "length as' = length as \<and> (\<forall>k < length as. \<not> is_moving (as ! k) \<longrightarrow> as' ! k = as ! k)"
proof -
  have len: "length as' = length as"
    using assms by (auto simp: interact_pair_def Let_def split: if_splits sum.splits)
  have "as' ! k = as ! k" if k: "k < length as" and rest: "\<not> is_moving (as ! k)" for k
  proof (cases "\<not> can_move (as ! i) \<and> \<not> can_move (as ! j) \<or> \<not> detect_collision (as ! i) (as ! j) r")
    case True
    with assms have "as' = as"
      by (auto simp: interact_pair_def Let_def split: if_splits)
    then show ?thesis by simp
  next
    case False
    then obtain a1 a2 where
      a1: "(if can_move (as ! i) then interact_with_agent (as ! i) (as ! j) else Inr (as ! i)) = Inr a1" and
      a2: "(if can_move (as ! j) then interact_with_agent (as ! j) a1 else Inr (as ! j)) = Inr a2" and
      as': "as' = as[i := a1, j := a2]"
      using assms by (auto simp: interact_pair_def Let_def split: sum.splits if_splits)
    have e1: "k = i \<Longrightarrow> a1 = as ! k"
      using a1 rest by (auto simp: can_move_def split: if_splits)
    have e2: "k = j \<Longrightarrow> a2 = as ! k"
      using a2 rest by (auto simp: can_move_def split: if_splits)
    show ?thesis
      unfolding as' using k e1 e2 by (cases "k = j"; cases "k = i") simp_all
  qed
  with len show ?thesis by blast
qed

lemma pairs_inner_resting:
  "pairs_inner as r i js = Inr as' \<Longrightarrow>
     length as' = length as \<and> (\<forall>k < length as. \<not> is_moving (as ! k) \<longrightarrow> as' ! k = as ! k)"
proof (induction js arbitrary: as)
  case Nil
  then show ?case by simp
next
  case (Cons j js)
  then obtain as1 where 1: "interact_pair as r i j = Inr as1" and 2: "pairs_inner as1 r i js = Inr as'"
    by (auto split: sum.splits)
  from interact_pair_resting [OF 1] Cons.IH [OF 2] show ?case by auto
qed

lemma pairs_outer_resting:
  "pairs_outer as r is = Inr as' \<Longrightarrow>
     length as' = length as \<and> (\<forall>k < length as. \<not> is_moving (as ! k) \<longrightarrow> as' ! k = as ! k)"
proof (induction "is" arbitrary: as)
  case Nil
  then show ?case by simp
next
  case (Cons i "is")
  then obtain as1 where 1: "pairs_inner as r i [Suc i ..< length as] = Inr as1"
    and 2: "pairs_outer as1 r is = Inr as'"
    by (auto split: sum.splits)
  from pairs_inner_resting [OF 1] Cons.IH [OF 2] show ?case by auto
qed

lemma boundary_loop_resting:
  "boundary_loop as b = Inr as' \<Longrightarrow>
     length as' = length as \<and> (\<forall>i < length as. \<not> is_moving (as ! i) \<longrightarrow> as' ! i = as ! i)"
proof (induction as arbitrary: as')
  case Nil
  then show ?case by simp
next
  case (Cons a as)
  then obtain a1 rest' where
    1: "(if can_move a then interact_with_boundary a b else Inr a) = Inr a1" and
    2: "boundary_loop as b = Inr rest'" and 3: "as' = a1 # rest'"
    by (auto split: sum.splits)
  have "\<not> is_moving a \<Longrightarrow> a1 = a"
    using 1 by (auto simp: can_move_def)
  with Cons.IH [OF 2] 3 show ?case
    by (auto simp: nth_Cons split: nat.splits)
qed

lemma Simulation_update_resting_unchanged:
  assumes "Simulation_update s rs = Inr (s', rs')"
  shows "length (agents s') = length (agents s) \<and>
         (\<forall>i < length (agents s). \<not> is_moving (agents s ! i) \<longrightarrow> agents s' ! i = agents s ! i)"
proof -
  from assms obtain as1 s2 s3 where
    1: "update_agents (agents s) (time_step s) (random_std_dev s) rs = Inr (as1, rs')" and
    2: "check_interactions (s\<lparr>agents := as1\<rparr>) = Inr s2" and
    3: "check_boundary_collisions s2 = Inr s3" and
    4: "s' = s3\<lparr>current_time := current_time s3 + time_step s3\<rparr>"
    by (auto simp: Simulation_update_def split: sum.splits prod.splits)
  from 2 obtain as2 where
    p2: "pairs_outer as1 (interaction_radius s) [0 ..< length as1] = Inr as2" and s2: "agents s2 = as2"
    by (auto simp: check_interactions_def split: sum.splits)
  from 3 obtain as3 where
    p3: "boundary_loop as2 (boundary s2) = Inr as3" and s3: "agents s3 = as3"
    using s2 by (auto simp: check_boundary_collisions_def split: sum.splits)
  from update_agents_resting [OF 1] pairs_outer_resting [OF p2] boundary_loop_resting [OF p3]
  show ?thesis
    using 4 s3 by auto
qed

lemma half_decayed_small: "\<bar>exp (- (1 / 100 :: real)) / 2\<bar> < 1"
proof -
  have "exp (- (1 / 100 :: real)) \<le> 1" by simp
  then have "exp (- (1 / 100 :: real)) < 2" by linarith
  then show ?thesis by simp
qed

text \<open>
  Claim C1 says that every step of the simulation runs the energy update of every agent,
  so that a Resting agent regains \<open>nrg_gain * max_energy\<close> per step. \<^verbatim>\<open>Simulation.update\<close>
  calls \<^verbatim>\<open>agent.update\<close> only under \<^verbatim>\<open>if agent.can_move()\<close>, although \<^verbatim>\<open>Agent.update\<close>
  says of its last line that the energy must still be updated when the agent is stopped,
  so that it is regained. The run below starts from one fresh agent with the default
  radius and rates, time step 0.1 and no noise: the first step rests it (its speed
  \<open>exp (-0.01) / 2\<close> is below 1), and the second step returns the agent as it was, with
  the energy still below \<open>max_energy\<close>; only the clock advances.
  (\<open>Simulation_update_resting_unchanged\<close> above is the general fact.)
\<close>

theorem resting_agent_never_regains:
  "Simulation_update
     ((Simulation_init 800 600 50 (1/10) 0)
        \<lparr>agents := [Agent_init (Vector2D 50 50) (Vector2D 1 0) (1/2) 5 (1/10) (1/100)]\<rparr>) zero_rng
   = Inr ((Simulation_init 800 600 50 (1/10) 0)
        \<lparr>agents := [(Agent_init (Vector2D 50 50) (Vector2D 1 0) (1/2) 5 (1/10) (1/100))
                      \<lparr>position := Vector2D (501/10) 50, movement_time := 1/10,
                       energy := exp (- (1/100)) / 2, velocity := Num 0, is_moving := False\<rparr>],
         current_time := 1/10\<rparr>, zero_rng) \<and>
   Simulation_update
     ((Simulation_init 800 600 50 (1/10) 0)
        \<lparr>agents := [(Agent_init (Vector2D 50 50) (Vector2D 1 0) (1/2) 5 (1/10) (1/100))
                      \<lparr>position := Vector2D (501/10) 50, movement_time := 1/10,
                       energy := exp (- (1/100)) / 2, velocity := Num 0, is_moving := False\<rparr>],
         current_time := 1/10\<rparr>) zero_rng
   = Inr ((Simulation_init 800 600 50 (1/10) 0)
        \<lparr>agents := [(Agent_init (Vector2D 50 50) (Vector2D 1 0) (1/2) 5 (1/10) (1/100))
                      \<lparr>position := Vector2D (501/10) 50, movement_time := 1/10,
                       energy := exp (- (1/100)) / 2, velocity := Num 0, is_moving := False\<rparr>],
         current_time := 2/10\<rparr>, zero_rng) \<and>
   exp (- (1/100)) / 2 < max_energy (Agent_init (Vector2D 50 50) (Vector2D 1 0) (1/2) 5 (1/10) (1/100))"
  using half_decayed_small
  by (simp add: Simulation_update_def Simulation_init_def Agent_init_def Agent_update_def
        Agent_energy_update_def check_interactions_def check_boundary_collisions_def
        can_move_def copy_def vec_add_def vec_mul_def Let_def)

section \<open>The energy update of a Moving agent\<close>



section \<open>The energy invariant\<close>




section \<open>The stopped agent's velocity\<close>

text \<open>
  Claim C6: when the magnitude threshold stops a Moving agent, the velocity attribute
  becomes the number 0, not a vector; \<^verbatim>\<open>get_agent_states\<close> then fails with
  \<^verbatim>\<open>AttributeError\<close> for every simulation that holds an agent whose velocity is not a
  vector; and the operations of the agent itself (\<^verbatim>\<open>energy_update\<close>, \<^verbatim>\<open>update\<close>,
  \<^verbatim>\<open>interact_with_agent\<close>, \<^verbatim>\<open>interact_with_boundary\<close>) all return for a Resting agent,
  whatever its velocity holds.
\<close>

theorem stopped_velocity_is_scalar:
  "(is_moving a \<and> velocity a = Vec v \<and>
      magnitude (vec_mul v (energy a * exp (- nrg_decay a * dt))) < 1 \<longrightarrow>
        (\<exists>a'. Agent_energy_update a dt rs = Inr (a', rs) \<and> velocity a' = Num 0 \<and> \<not> is_moving a')) \<and>
   ((\<exists>a\<in>set (agents s). \<not> is_vec (velocity a)) \<longrightarrow> get_agent_states s = Inl AttributeError) \<and>
   (\<not> is_moving a \<longrightarrow>
      (\<exists>r. Agent_energy_update a dt rs = Inr r) \<and> (\<exists>r. Agent_update a dt sd rs = Inr r) \<and>
      interact_with_agent a other = Inr a \<and> interact_with_boundary a b = Inr a)"
proof (intro conjI impI)
  assume "is_moving a \<and> velocity a = Vec v \<and>
      magnitude (vec_mul v (energy a * exp (- nrg_decay a * dt))) < 1"
  then show "\<exists>a'. Agent_energy_update a dt rs = Inr (a', rs) \<and> velocity a' = Num 0 \<and> \<not> is_moving a'"
    by (simp add: Agent_energy_update_def Let_def)
next
  assume "\<exists>a\<in>set (agents s). \<not> is_vec (velocity a)"
  then show "get_agent_states s = Inl AttributeError"
    unfolding get_agent_states_def by (rule states_loop_fails)
next
  assume r: "\<not> is_moving a"
  show "\<exists>r. Agent_energy_update a dt rs = Inr r"
    using r by (rule resting_energy_update_total)
  show "\<exists>r. Agent_update a dt sd rs = Inr r"
    using r resting_energy_update_total [of a dt rs] by (simp add: Agent_update_def)
  show "interact_with_agent a other = Inr a"
    using r by (simp add: interact_with_agent_def)
  show "interact_with_boundary a b = Inr a"
    using r by (simp add: interact_with_boundary_def)
qed

theorem stopped_velocity_is_scalar_witness:
  "is_moving (Agent_init (Vector2D 0 0) (Vector2D (1/2) 0) 1 5 0 (1/100)) \<and>
   velocity (Agent_init (Vector2D 0 0) (Vector2D (1/2) 0) 1 5 0 (1/100)) = Vec (Vector2D (1/2) 0) \<and>
   (\<exists>a'. Agent_energy_update (Agent_init (Vector2D 0 0) (Vector2D (1/2) 0) 1 5 0 (1/100))
            (1/10) zero_rng = Inr (a', zero_rng) \<and> velocity a' = Num 0 \<and> \<not> is_moving a') \<and>
   get_agent_states
     ((Simulation_init 800 600 50 (1/10) 0)
        \<lparr>agents := [(Agent_init (Vector2D 0 0) (Vector2D (1/2) 0) 1 5 0 (1/100))
                      \<lparr>velocity := Num 0, is_moving := False\<rparr>]\<rparr>) = Inl AttributeError \<and>
   interact_with_boundary
     ((Agent_init (Vector2D 0 0) (Vector2D (1/2) 0) 1 5 0 (1/100))
        \<lparr>velocity := Num 0, is_moving := False\<rparr>) (Boundary_init 800 600)
     = Inr ((Agent_init (Vector2D 0 0) (Vector2D (1/2) 0) 1 5 0 (1/100))
        \<lparr>velocity := Num 0, is_moving := False\<rparr>)"
proof -
  have moving: "is_moving (Agent_init (Vector2D 0 0) (Vector2D (1/2) 0) 1 5 0 (1/100)) \<and>
      velocity (Agent_init (Vector2D 0 0) (Vector2D (1/2) 0) 1 5 0 (1/100)) = Vec (Vector2D (1/2) 0) \<and>
      magnitude (vec_mul (Vector2D (1/2) 0)
        (energy (Agent_init (Vector2D 0 0) (Vector2D (1/2) 0) 1 5 0 (1/100)) *
         exp (- nrg_decay (Agent_init (Vector2D 0 0) (Vector2D (1/2) 0) 1 5 0 (1/100)) * (1/10)))) < 1"
    by (simp add: Agent_init_def copy_def vec_mul_def)
  have scalar: "\<exists>a\<in>set (agents ((Simulation_init 800 600 50 (1/10) 0)
        \<lparr>agents := [(Agent_init (Vector2D 0 0) (Vector2D (1/2) 0) 1 5 0 (1/100))
                      \<lparr>velocity := Num 0, is_moving := False\<rparr>]\<rparr>)). \<not> is_vec (velocity a)"
    by (simp add: is_vec_def)
  have resting: "\<not> is_moving ((Agent_init (Vector2D 0 0) (Vector2D (1/2) 0) 1 5 0 (1/100))
        \<lparr>velocity := Num 0, is_moving := False\<rparr>)"
    by simp
  show ?thesis
    using moving scalar resting
      stopped_velocity_is_scalar
        [of "Agent_init (Vector2D 0 0) (Vector2D (1/2) 0) 1 5 0 (1/100)" "Vector2D (1/2) 0"
            "1/10" zero_rng
            "(Simulation_init 800 600 50 (1/10) 0)
               \<lparr>agents := [(Agent_init (Vector2D 0 0) (Vector2D (1/2) 0) 1 5 0 (1/100))
                             \<lparr>velocity := Num 0, is_moving := False\<rparr>]\<rparr>"]
      stopped_velocity_is_scalar
        [of "(Agent_init (Vector2D 0 0) (Vector2D (1/2) 0) 1 5 0 (1/100))
               \<lparr>velocity := Num 0, is_moving := False\<rparr>" "Vector2D (1/2) 0" "1/10" zero_rng
            "Simulation_init 800 600 50 (1/10) 0" 0
            "Agent_init (Vector2D 0 0) (Vector2D (1/2) 0) 1 5 0 (1/100)" "Boundary_init 800 600"]
    by simp
qed

section \<open>The speed of a Moving agent\<close>

text \<open>
  Claim C4 says that a Moving agent updated without noise, with \<open>nrg_decay > 0\<close> and a fixed
  positive \<^verbatim>\<open>delta_time\<close>, ends Resting, its speed never increasing on the way; the comment
  in \<^verbatim>\<open>energy_update\<close> says the same (``Agent should slow down overtime based on decaying
  energy''). The velocity is multiplied by the energy itself, and
  \<^verbatim>\<open>Simulation.initialize_agents\<close> draws energies from \<open>(5.0, 20.0)\<close> by default: a fresh agent
  of energy 15 and velocity \<open>(10, 0)\<close>, with the default rates and the time step 0.1,
  leaves its first update Moving with speed \<open>150 * exp (-0.01)\<close>, which is more than 10.
\<close>

theorem speed_grows_at_default_energy:
  "speed (Agent_init (Vector2D 0 0) (Vector2D 10 0) 15 5 (1/10) (1/100)) = 10 \<and>
   Agent_update (Agent_init (Vector2D 0 0) (Vector2D 10 0) 15 5 (1/10) (1/100)) (1/10) 0 zero_rng
     = Inr ((Agent_init (Vector2D 0 0) (Vector2D 10 0) 15 5 (1/10) (1/100))
              \<lparr>position := Vector2D 1 0, movement_time := 1/10,
               energy := 15 * exp (- (1/100)),
               velocity := Vec (Vector2D (150 * exp (- (1/100))) 0)\<rparr>, zero_rng) \<and>
   10 < speed ((Agent_init (Vector2D 0 0) (Vector2D 10 0) 15 5 (1/10) (1/100))
              \<lparr>position := Vector2D 1 0, movement_time := 1/10,
               energy := 15 * exp (- (1/100)),
               velocity := Vec (Vector2D (150 * exp (- (1/100))) 0)\<rparr>)"
proof -
  have "1 + (- (1/100)) \<le> exp (- (1/100 :: real))"
    by (rule exp_ge_add_one_self)
  then have big: "10 < 150 * exp (- (1/100 :: real))" by simp
  then have "\<not> 150 * exp (- (1/100 :: real)) < 1" by simp
  with big show ?thesis
    by (simp add: Agent_update_def Agent_energy_update_def Agent_init_def Let_def speed_def
          copy_def vec_add_def vec_mul_def)
qed

end
